theory Spec2Isabelle
  imports Main "HOL-Library.Sublist"
begin

section \<open>mongotransf: copying one Mongo database to another\<close>

text \<open>
  The script \<^verbatim>\<open>mongotransf.py\<close> has one function, \<^verbatim>\<open>main(origin, destination,
  collection=None)\<close>. It checks the scheme of two connection strings, parses them with
  PyMongo's \<^verbatim>\<open>parse_uri\<close>, derives a dump directory from the origin's database name,
  refuses to run when that directory exists or when a URI names more than one host,
  formats a \<^verbatim>\<open>mongodump\<close> and a \<^verbatim>\<open>mongorestore\<close> command line, prints both, and
  runs them one after the other through the shell.

  The model is a pure function from the inputs and an explicit environment to the list
  of calls the function makes to the outside (its trace) and the way it ends.
\<close>

subsection \<open>Python values and library functions\<close>

text \<open>
  The exceptions that can leave \<^verbatim>\<open>main\<close>. The script raises the base class
  \<^verbatim>\<open>Exception\<close> with a message; \<^verbatim>\<open>"dump_" + None\<close> raises \<^verbatim>\<open>TypeError\<close>;
  \<^verbatim>\<open>InvalidURI\<close> is PyMongo's, and \<open>LibraryError\<close> stands for any other exception
  that \<^verbatim>\<open>parse_uri\<close> lets escape (the script catches \<^verbatim>\<open>InvalidURI\<close> only).
\<close>

datatype py_exception =
    Exception string
  | TypeError
  | InvalidURI
  | LibraryError string

text \<open>\<^verbatim>\<open>s.startswith(p)\<close>\<close>

definition startswith :: "string \<Rightarrow> string \<Rightarrow> bool" where
  "startswith s p = (take (length p) s = p)"

text \<open>\<^verbatim>\<open>str(n)\<close> for an integer: decimal digits, a minus sign when negative.\<close>

fun str_nat :: "nat \<Rightarrow> string" where
  "str_nat n =
     (if n < 10 then [''0123456789'' ! n]
      else str_nat (n div 10) @ [''0123456789'' ! (n mod 10)])"

declare str_nat.simps [simp del]

definition str_int :: "int \<Rightarrow> string" where
  "str_int i = (if i < 0 then CHR ''-'' # str_nat (nat (- i)) else str_nat (nat i))"

text \<open>
  What \<^verbatim>\<open>str.format\<close> substitutes for a field whose argument is a string or
  \<^verbatim>\<open>None\<close>: the string itself, or the text \<^verbatim>\<open>None\<close>.
\<close>

fun format_field :: "string option \<Rightarrow> string" where
  "format_field None = ''None''"
| "format_field (Some s) = s"

text \<open>
  \<^verbatim>\<open>os.path.join(a, b)\<close> on a POSIX system: an absolute second component replaces the
  first; otherwise a separator is inserted unless the first is empty or ends with one.
\<close>

definition os_path_join :: "string \<Rightarrow> string \<Rightarrow> string" where
  "os_path_join a b =
     (if startswith b ''/'' then b
      else if a = [] \<or> last a = CHR ''/'' then a @ b
      else a @ ''/'' @ b)"

text \<open>The truth value of \<^verbatim>\<open>collection\<close> in \<^verbatim>\<open>if collection:\<close>.\<close>

fun truthy :: "string option \<Rightarrow> bool" where
  "truthy None = False"
| "truthy (Some s) = (s \<noteq> [])"

subsection \<open>The module's templates\<close>

text \<open>
  \<^verbatim>\<open>MONGODUMP_TEMPLATE = "mongodump -h {host} -u {user} -p {password} -d {db} -o {output}/"\<close>
\<close>

definition MONGODUMP_TEMPLATE :: "string \<Rightarrow> string \<Rightarrow> string \<Rightarrow> string \<Rightarrow> string \<Rightarrow> string" where
  "MONGODUMP_TEMPLATE host user password db output =
     ''mongodump -h '' @ host @ '' -u '' @ user @ '' -p '' @ password @ '' -d '' @ db @
     '' -o '' @ output @ ''/''"

text \<open>
  \<^verbatim>\<open>MONGORESTORE_TEMPLATE = "mongorestore -h {host} -d {destination_db} -u {user} -p {password} {folder}/{origin_db}"\<close>
\<close>

definition MONGORESTORE_TEMPLATE ::
  "string \<Rightarrow> string \<Rightarrow> string \<Rightarrow> string \<Rightarrow> string \<Rightarrow> string \<Rightarrow> string" where
  "MONGORESTORE_TEMPLATE host destination_db user password folder origin_db =
     ''mongorestore -h '' @ host @ '' -d '' @ destination_db @ '' -u '' @ user @
     '' -p '' @ password @ '' '' @ folder @ ''/'' @ origin_db"

text \<open>\<^verbatim>\<open>HOST_TEMPLATE = "{host}:{port}"\<close>\<close>

definition HOST_TEMPLATE :: "string \<Rightarrow> string \<Rightarrow> string" where
  "HOST_TEMPLATE host port = host @ '':'' @ port"

subsection \<open>The environment\<close>

text \<open>
  The dictionary \<^verbatim>\<open>parse_uri\<close> returns, with the keys the script reads. The user name,
  the password and the database are \<^verbatim>\<open>None\<close> when the URI leaves them out.
\<close>

record parsed_uri =
  nodelist :: "(string \<times> int) list"
  username :: "string option"
  password :: "string option"
  database :: "string option"

text \<open>
  Everything \<^verbatim>\<open>main\<close> takes from outside its arguments: PyMongo's parser (its result or
  the exception it raises), the working directory, the file system's answer to
  \<^verbatim>\<open>os.path.exists\<close>, and the child processes. \<open>child_exit env n\<close> is the exit status
  of the \<open>n\<close>-th process the run starts, or \<open>None\<close> when that process never exits
  (\<^verbatim>\<open>wait()\<close> has no timeout).
\<close>

record env =
  parse_uri :: "string \<Rightarrow> py_exception + parsed_uri"
  getcwd :: string
  path_exists :: "string \<Rightarrow> bool"
  child_exit :: "nat \<Rightarrow> int option"

text \<open>
  The calls a run makes, in order: to the parser, to \<^verbatim>\<open>os.path.exists\<close>, to
  \<^verbatim>\<open>print\<close>, to \<^verbatim>\<open>subprocess.Popen\<close> (the process's number and its shell command),
  and the return of \<^verbatim>\<open>wait()\<close> (the process's number and its exit status).
\<close>

datatype event =
    ParseUri string
  | PathExists string
  | Print string
  | Popen nat string
  | Exited nat int

text \<open>
  How a run ends: \<^verbatim>\<open>main\<close> returns, an exception leaves it, or it waits for ever on
  a child that does not exit.
\<close>

datatype outcome = Returned | Raised py_exception | Blocked

subsection \<open>The function main\<close>

text \<open>
  \<^verbatim>\<open>except InvalidURI: raise Exception("Mongo URL parsing error!")\<close>: any other
  exception of the parser passes through.
\<close>

definition except_InvalidURI :: "py_exception \<Rightarrow> py_exception" where
  "except_InvalidURI e = (if e = InvalidURI then Exception ''Mongo URL parsing error!'' else e)"

definition main :: "env \<Rightarrow> string \<Rightarrow> string \<Rightarrow> string option \<Rightarrow> event list \<times> outcome" where
  "main env origin destination collection =
    (if \<not> (startswith origin ''mongodb://'' \<and> startswith destination ''mongodb://'')
     then ([], Raised (Exception ''Both origin and destination must be Mongo URLs''))
     else
     (case parse_uri env origin of
        Inl e \<Rightarrow> ([ParseUri origin], Raised (except_InvalidURI e))
      | Inr origin_p \<Rightarrow>
     (case parse_uri env destination of
        Inl e \<Rightarrow> ([ParseUri origin, ParseUri destination], Raised (except_InvalidURI e))
      | Inr destination_p \<Rightarrow>
     (case database origin_p of
        None \<Rightarrow> ([ParseUri origin, ParseUri destination], Raised TypeError)
      | Some origin_db \<Rightarrow>
     (let dump_folder = ''dump_'' @ origin_db;
          dump_path = os_path_join (getcwd env) dump_folder;
          checked = [ParseUri origin, ParseUri destination, PathExists dump_path]
      in
      if path_exists env dump_path
      then (checked, Raised (Exception (''Destination path '' @ dump_path @ '' already exists!'')))
      else if length (nodelist origin_p) \<noteq> 1 \<or> length (nodelist destination_p) \<noteq> 1
      then (checked, Raised (Exception ''Currently, we do not support more than one host''))
      else
     (let origin_host = HOST_TEMPLATE
            (fst (nodelist origin_p ! 0))
            (str_int (snd (nodelist origin_p ! 0)));
          mongodump_command = MONGODUMP_TEMPLATE
            origin_host
            (format_field (username origin_p))
            (format_field (password origin_p))
            origin_db
            dump_path;
          destination_host = HOST_TEMPLATE
            (fst (nodelist destination_p ! 0))
            (str_int (snd (nodelist destination_p ! 0)));
          mongorestore_command =
            (if truthy collection
             then MONGORESTORE_TEMPLATE
                    destination_host
                    (format_field (database destination_p))
                    (format_field (username destination_p))
                    (format_field (password destination_p))
                    dump_path
                    (origin_db @ ''/'' @ the collection @ ''.bson'')
             else MONGORESTORE_TEMPLATE
                    destination_host
                    (format_field (database destination_p))
                    (format_field (username destination_p))
                    (format_field (password destination_p))
                    dump_path
                    origin_db);
          mongodump_command =
            (if truthy collection then mongodump_command @ '' -c '' @ the collection
             else mongodump_command);
          mongorestore_command =
            (if truthy collection then mongorestore_command @ '' -c '' @ the collection
             else mongorestore_command);
          started = checked @
            [Print mongodump_command,
             Print mongorestore_command,
             Print ''** Importing from origin **'',
             Popen 0 mongodump_command]
      in
      (case child_exit env 0 of
         None \<Rightarrow> (started, Blocked)
       | Some dump_status \<Rightarrow>
      (let dumped = started @
             [Exited 0 dump_status,
              Print ''** Exporting to destination **'',
              Popen 1 mongorestore_command]
       in
       (case child_exit env 1 of
          None \<Rightarrow> (dumped, Blocked)
        | Some restore_status \<Rightarrow>
            (dumped @ [Exited 1 restore_status, Print ''Done!''], Returned))))))))))"

subsection \<open>The interpreter's exit status\<close>

text \<open>
  The script calls \<^verbatim>\<open>main\<close> last. When \<^verbatim>\<open>main\<close> returns the interpreter exits with
  status 0; an exception nobody handles makes it print a traceback and exit with
  status 1; a run that waits for ever has no exit status.
\<close>

fun exit_status :: "outcome \<Rightarrow> int option" where
  "exit_status Returned = Some 0"
| "exit_status (Raised e) = Some 1"
| "exit_status Blocked = None"

subsection \<open>Reading a trace\<close>

text \<open>The lines printed, the shell commands started and the paths tested, in order.\<close>

fun printed :: "event list \<Rightarrow> string list" where
  "printed [] = []"
| "printed (Print s # t) = s # printed t"
| "printed (e # t) = printed t"

fun launched :: "event list \<Rightarrow> string list" where
  "launched [] = []"
| "launched (Popen n c # t) = c # launched t"
| "launched (e # t) = launched t"

fun checked_paths :: "event list \<Rightarrow> string list" where
  "checked_paths [] = []"
| "checked_paths (PathExists p # t) = p # checked_paths t"
| "checked_paths (e # t) = checked_paths t"

text \<open>The events of the child processes: starts and exits.\<close>

fun is_process_event :: "event \<Rightarrow> bool" where
  "is_process_event (Popen n c) = True"
| "is_process_event (Exited n s) = True"
| "is_process_event e = False"

definition process_events :: "event list \<Rightarrow> event list" where
  "process_events t = filter is_process_event t"

subsection \<open>The four error kinds\<close>

text \<open>
  The script raises \<^verbatim>\<open>Exception\<close> with four different messages. These are the
  names the specification gives them.
\<close>

definition InvalidInputError :: py_exception where
  "InvalidInputError = Exception ''Both origin and destination must be Mongo URLs''"

definition InvalidURIError :: py_exception where
  "InvalidURIError = Exception ''Mongo URL parsing error!''"

definition PathCollisionError :: "string \<Rightarrow> py_exception" where
  "PathCollisionError dump_path =
     Exception (''Destination path '' @ dump_path @ '' already exists!'')"

definition UnsupportedTopologyError :: py_exception where
  "UnsupportedTopologyError = Exception ''Currently, we do not support more than one host''"

subsection \<open>Example inputs\<close>

text \<open>
  The parser's answers at the strings the examples use: the specification's two
  example URIs, a URI with two hosts, one without a database name, the bare scheme
  \<^verbatim>\<open>mongodb://\<close>, for which PyMongo raises \<^verbatim>\<open>InvalidURI\<close> (no host is given), and
  \<^verbatim>\<open>mongodb://a:b:c\<close>, for which PyMongo raises \<^verbatim>\<open>ValueError\<close> (more than one colon
  in a host). The table says nothing about PyMongo at any other string: there the
  example parser fails with an exception of its own, and no example uses it.
\<close>

definition uri_foo :: parsed_uri where
  "uri_foo = \<lparr>nodelist = [(''a'', 27017)], username = Some ''u1'', password = Some ''p1'',
     database = Some ''foo''\<rparr>"

definition uri_bar :: parsed_uri where
  "uri_bar = \<lparr>nodelist = [(''b'', 27017)], username = Some ''u2'', password = Some ''p2'',
     database = Some ''bar''\<rparr>"

definition uri_two_hosts :: parsed_uri where
  "uri_two_hosts = \<lparr>nodelist = [(''a'', 27017), (''c'', 27018)], username = Some ''u1'',
     password = Some ''p1'', database = Some ''foo''\<rparr>"

definition uri_no_database :: parsed_uri where
  "uri_no_database = \<lparr>nodelist = [(''a'', 27017)], username = Some ''u1'',
     password = Some ''p1'', database = None\<rparr>"

definition example_parse_uri :: "string \<Rightarrow> py_exception + parsed_uri" where
  "example_parse_uri s =
     (if s = ''mongodb://u1:p1@a:27017/foo'' then Inr uri_foo
      else if s = ''mongodb://u2:p2@b:27017/bar'' then Inr uri_bar
      else if s = ''mongodb://u1:p1@a:27017,c:27018/foo'' then Inr uri_two_hosts
      else if s = ''mongodb://u1:p1@a:27017'' then Inr uri_no_database
      else if s = ''mongodb://'' then Inl InvalidURI
      else if s = ''mongodb://a:b:c'' then Inl (LibraryError ''ValueError'')
      else Inl (LibraryError ''not in the example table''))"

text \<open>
  A run in \<^verbatim>\<open>/home/user\<close> where no dump directory exists, the dump exits with
  status 1 and the restore with status 0; and the same with the directory
  \<^verbatim>\<open>/home/user/dump_foo\<close> already there.
\<close>

definition example_env :: env where
  "example_env = \<lparr>parse_uri = example_parse_uri, getcwd = ''/home/user'',
     path_exists = (\<lambda>p. False), child_exit = (\<lambda>n. if n = 0 then Some 1 else Some 0)\<rparr>"

definition collision_env :: env where
  "collision_env = \<lparr>parse_uri = example_parse_uri, getcwd = ''/home/user'',
     path_exists = (\<lambda>p. p = ''/home/user/dump_foo''),
     child_exit = (\<lambda>n. if n = 0 then Some 1 else Some 0)\<rparr>"

section \<open>Properties\<close>

subsection \<open>Library functions\<close>

lemma str_nat_digit: "n < 10 \<Longrightarrow> str_nat n = [''0123456789'' ! n]"
  by (subst str_nat.simps) simp

lemma str_nat_step:
  "10 \<le> n \<Longrightarrow> str_nat n = str_nat (n div 10) @ [''0123456789'' ! (n mod 10)]"
  by (subst str_nat.simps) simp

lemma str_int_27017: "str_int 27017 = ''27017''"
  by (simp add: str_int_def str_nat_step str_nat_digit)

text \<open>
  The dump directory under the working directory: \<^verbatim>\<open>os.path.join\<close> puts one
  separator between the two, and none when the working directory already ends with one
  (the root directory).
\<close>

lemma os_path_join_dump:
  "os_path_join cwd (''dump_'' @ d) =
     (if cwd = [] \<or> last cwd = CHR ''/'' then cwd @ ''dump_'' @ d else cwd @ ''/dump_'' @ d)"
  by (simp add: os_path_join_def startswith_def)

lemmas templates = MONGODUMP_TEMPLATE_def MONGORESTORE_TEMPLATE_def HOST_TEMPLATE_def

subsection \<open>The stages of main\<close>

text \<open>
  What \<^verbatim>\<open>main\<close> does at each place where it can stop before a command is built, and
  once every check has passed.
\<close>

lemma main_bad_scheme:
  "\<not> (startswith origin ''mongodb://'' \<and> startswith destination ''mongodb://'') \<Longrightarrow>
   main env origin destination collection =
     ([], Raised (Exception ''Both origin and destination must be Mongo URLs''))"
  by (simp add: main_def)

lemma main_origin_unparsed:
  "startswith origin ''mongodb://'' \<Longrightarrow> startswith destination ''mongodb://'' \<Longrightarrow>
   parse_uri env origin = Inl e \<Longrightarrow>
   main env origin destination collection = ([ParseUri origin], Raised (except_InvalidURI e))"
  by (simp add: main_def)

lemma main_destination_unparsed:
  "startswith origin ''mongodb://'' \<Longrightarrow> startswith destination ''mongodb://'' \<Longrightarrow>
   parse_uri env origin = Inr origin_p \<Longrightarrow> parse_uri env destination = Inl e \<Longrightarrow>
   main env origin destination collection =
     ([ParseUri origin, ParseUri destination], Raised (except_InvalidURI e))"
  by (simp add: main_def)

lemma main_no_database:
  "startswith origin ''mongodb://'' \<Longrightarrow> startswith destination ''mongodb://'' \<Longrightarrow>
   parse_uri env origin = Inr origin_p \<Longrightarrow> parse_uri env destination = Inr destination_p \<Longrightarrow>
   database origin_p = None \<Longrightarrow>
   main env origin destination collection =
     ([ParseUri origin, ParseUri destination], Raised TypeError)"
  by (simp add: main_def)

lemma main_collision:
  "startswith origin ''mongodb://'' \<Longrightarrow> startswith destination ''mongodb://'' \<Longrightarrow>
   parse_uri env origin = Inr origin_p \<Longrightarrow> parse_uri env destination = Inr destination_p \<Longrightarrow>
   database origin_p = Some odb \<Longrightarrow>
   path_exists env (os_path_join (getcwd env) (''dump_'' @ odb)) \<Longrightarrow>
   main env origin destination collection =
     ([ParseUri origin, ParseUri destination,
       PathExists (os_path_join (getcwd env) (''dump_'' @ odb))],
      Raised (Exception (''Destination path '' @ os_path_join (getcwd env) (''dump_'' @ odb) @
        '' already exists!'')))"
  by (simp add: main_def Let_def)

lemma main_topology:
  "startswith origin ''mongodb://'' \<Longrightarrow> startswith destination ''mongodb://'' \<Longrightarrow>
   parse_uri env origin = Inr origin_p \<Longrightarrow> parse_uri env destination = Inr destination_p \<Longrightarrow>
   database origin_p = Some odb \<Longrightarrow>
   \<not> path_exists env (os_path_join (getcwd env) (''dump_'' @ odb)) \<Longrightarrow>
   length (nodelist origin_p) \<noteq> 1 \<or> length (nodelist destination_p) \<noteq> 1 \<Longrightarrow>
   main env origin destination collection =
     ([ParseUri origin, ParseUri destination,
       PathExists (os_path_join (getcwd env) (''dump_'' @ odb))],
      Raised (Exception ''Currently, we do not support more than one host''))"
  by (simp add: main_def Let_def)

lemma main_started:
  assumes "startswith origin ''mongodb://''" and "startswith destination ''mongodb://''"
    and "parse_uri env origin = Inr origin_p"
    and "parse_uri env destination = Inr destination_p"
    and "database origin_p = Some odb"
    and "\<not> path_exists env (os_path_join (getcwd env) (''dump_'' @ odb))"
    and "length (nodelist origin_p) = 1" and "length (nodelist destination_p) = 1"
  shows "\<exists>X Y. main env origin destination collection =
     (case child_exit env 0 of
        None \<Rightarrow>
          ([ParseUri origin, ParseUri destination,
            PathExists (os_path_join (getcwd env) (''dump_'' @ odb)),
            Print (''mongodump'' @ X), Print (''mongorestore'' @ Y),
            Print ''** Importing from origin **'', Popen 0 (''mongodump'' @ X)], Blocked)
      | Some s0 \<Rightarrow>
     (case child_exit env 1 of
        None \<Rightarrow>
          ([ParseUri origin, ParseUri destination,
            PathExists (os_path_join (getcwd env) (''dump_'' @ odb)),
            Print (''mongodump'' @ X), Print (''mongorestore'' @ Y),
            Print ''** Importing from origin **'', Popen 0 (''mongodump'' @ X), Exited 0 s0,
            Print ''** Exporting to destination **'', Popen 1 (''mongorestore'' @ Y)],
           Blocked)
      | Some s1 \<Rightarrow>
          ([ParseUri origin, ParseUri destination,
            PathExists (os_path_join (getcwd env) (''dump_'' @ odb)),
            Print (''mongodump'' @ X), Print (''mongorestore'' @ Y),
            Print ''** Importing from origin **'', Popen 0 (''mongodump'' @ X), Exited 0 s0,
            Print ''** Exporting to destination **'', Popen 1 (''mongorestore'' @ Y),
            Exited 1 s1, Print ''Done!''], Returned)))"
proof -
  let ?P = "os_path_join (getcwd env) (''dump_'' @ odb)"
  let ?X = "'' -h '' @ HOST_TEMPLATE (fst (nodelist origin_p ! 0))
               (str_int (snd (nodelist origin_p ! 0))) @
            '' -u '' @ format_field (username origin_p) @
            '' -p '' @ format_field (password origin_p) @ '' -d '' @ odb @ '' -o '' @ ?P @ ''/'' @
            (if truthy collection then '' -c '' @ the collection else [])"
  let ?Y = "'' -h '' @ HOST_TEMPLATE (fst (nodelist destination_p ! 0))
               (str_int (snd (nodelist destination_p ! 0))) @
            '' -d '' @ format_field (database destination_p) @
            '' -u '' @ format_field (username destination_p) @
            '' -p '' @ format_field (password destination_p) @ '' '' @ ?P @ ''/'' @ odb @
            (if truthy collection
             then ''/'' @ the collection @ ''.bson'' @ '' -c '' @ the collection else [])"
  show ?thesis
    apply (rule exI [of _ ?X])
    apply (rule exI [of _ ?Y])
    using assms
    apply (simp add: main_def Let_def MONGODUMP_TEMPLATE_def MONGORESTORE_TEMPLATE_def
        split: option.splits)
    done
qed

subsection \<open>Command construction\<close>

text \<open>
  C1. Both URIs have the scheme, the parser returns host \<^verbatim>\<open>a\<close>, port 27017, user
  \<^verbatim>\<open>u1\<close>, password \<^verbatim>\<open>p1\<close>, database \<^verbatim>\<open>foo\<close> for the origin and host \<^verbatim>\<open>b\<close>,
  port 27017, user \<^verbatim>\<open>u2\<close>, password \<^verbatim>\<open>p2\<close>, database \<^verbatim>\<open>bar\<close> for the
  destination, the dump directory does not exist and no collection is given. Then the
  first two lines printed are the dump command
  \<^verbatim>\<open>mongodump -h a:27017 -u u1 -p p1 -d foo -o <cwd>/dump_foo/\<close> and the restore command
  \<^verbatim>\<open>mongorestore -h b:27017 -d bar -u u2 -p p2 <cwd>/dump_foo/foo\<close>, and the commands
  handed to the shell are these two, in this order, the dump command at least. Here
  \<^verbatim>\<open><cwd>/dump_foo\<close> is \<^verbatim>\<open>os.path.join(os.getcwd(), "dump_foo")\<close>, which is the
  working directory, a separator and \<^verbatim>\<open>dump_foo\<close> whenever the working directory does
  not end with a separator.
\<close>

theorem C1_commands_without_collection:
  assumes "startswith origin ''mongodb://''" and "startswith destination ''mongodb://''"
    and "parse_uri env origin = Inr \<lparr>nodelist = [(''a'', 27017)], username = Some ''u1'',
           password = Some ''p1'', database = Some ''foo''\<rparr>"
    and "parse_uri env destination = Inr \<lparr>nodelist = [(''b'', 27017)], username = Some ''u2'',
           password = Some ''p2'', database = Some ''bar''\<rparr>"
    and "\<not> path_exists env (os_path_join (getcwd env) ''dump_foo'')"
  shows "take 2 (printed (fst (main env origin destination None))) =
           [''mongodump -h a:27017 -u u1 -p p1 -d foo -o '' @
              os_path_join (getcwd env) ''dump_foo'' @ ''/'',
            ''mongorestore -h b:27017 -d bar -u u2 -p p2 '' @
              os_path_join (getcwd env) ''dump_foo'' @ ''/foo'']
       \<and> launched (fst (main env origin destination None)) \<noteq> []
       \<and> prefix (launched (fst (main env origin destination None)))
           [''mongodump -h a:27017 -u u1 -p p1 -d foo -o '' @
              os_path_join (getcwd env) ''dump_foo'' @ ''/'',
            ''mongorestore -h b:27017 -d bar -u u2 -p p2 '' @
              os_path_join (getcwd env) ''dump_foo'' @ ''/foo'']
       \<and> (getcwd env \<noteq> [] \<and> last (getcwd env) \<noteq> CHR ''/'' \<longrightarrow>
            os_path_join (getcwd env) ''dump_foo'' = getcwd env @ ''/dump_foo'')"
proof -
  have j: "getcwd env \<noteq> [] \<and> last (getcwd env) \<noteq> CHR ''/'' \<longrightarrow>
            os_path_join (getcwd env) ''dump_foo'' = getcwd env @ ''/dump_foo''"
    using os_path_join_dump [of "getcwd env" "''foo''"] by simp
  show ?thesis
    using assms j
    by (simp add: main_def Let_def templates str_int_27017 split: option.splits)
qed

theorem C1_witness:
  "take 2 (printed (fst (main example_env ''mongodb://u1:p1@a:27017/foo''
       ''mongodb://u2:p2@b:27017/bar'' None))) =
     [''mongodump -h a:27017 -u u1 -p p1 -d foo -o /home/user/dump_foo/'',
      ''mongorestore -h b:27017 -d bar -u u2 -p p2 /home/user/dump_foo/foo'']"
  using C1_commands_without_collection [of "''mongodb://u1:p1@a:27017/foo''"
      "''mongodb://u2:p2@b:27017/bar''" example_env]
  by (simp add: example_env_def example_parse_uri_def uri_foo_def uri_bar_def
      startswith_def os_path_join_def)

text \<open>
  C2. Both URIs have the scheme and parse to one host each, the origin names a database
  \<open>odb\<close> and the dump directory \<open>P\<close> does not exist. Let \<open>D\<close> be the dump command built
  without a collection and \<open>H\<close> the restore command up to its source path. Without a
  collection the two commands are \<open>D\<close> and \<open>H\<close> followed by \<^verbatim>\<open>P/odb\<close>. With the
  collection \<^verbatim>\<open>users\<close> the dump command is \<open>D\<close> followed by \<^verbatim>\<open> -c users\<close>, and the
  restore command is \<open>H\<close> followed by the source path \<^verbatim>\<open>P/odb/users.bson\<close> and by
  \<^verbatim>\<open> -c users\<close>; these are the commands printed and handed to the shell.
\<close>

theorem C2_commands_with_collection:
  assumes "startswith origin ''mongodb://''" and "startswith destination ''mongodb://''"
    and "parse_uri env origin = Inr origin_p"
    and "parse_uri env destination = Inr destination_p"
    and "nodelist origin_p = [(oh, op)]" and "nodelist destination_p = [(dh, dp)]"
    and "database origin_p = Some odb"
    and "P = os_path_join (getcwd env) (''dump_'' @ odb)"
    and "\<not> path_exists env P"
    and "D = ''mongodump -h '' @ oh @ '':'' @ str_int op @
            '' -u '' @ format_field (username origin_p) @
            '' -p '' @ format_field (password origin_p) @ '' -d '' @ odb @ '' -o '' @ P @ ''/''"
    and "H = ''mongorestore -h '' @ dh @ '':'' @ str_int dp @
            '' -d '' @ format_field (database destination_p) @
            '' -u '' @ format_field (username destination_p) @
            '' -p '' @ format_field (password destination_p) @ '' ''"
  shows "take 2 (printed (fst (main env origin destination None))) =
           [D, H @ P @ ''/'' @ odb]
       \<and> take 2 (printed (fst (main env origin destination (Some ''users'')))) =
           [D @ '' -c users'', H @ P @ ''/'' @ odb @ ''/users.bson'' @ '' -c users'']
       \<and> launched (fst (main env origin destination (Some ''users''))) \<noteq> []
       \<and> prefix (launched (fst (main env origin destination (Some ''users''))))
           [D @ '' -c users'', H @ P @ ''/'' @ odb @ ''/users.bson'' @ '' -c users'']"
  using assms
  by (simp add: main_def Let_def templates split: option.splits)

theorem C2_witness:
  "take 2 (printed (fst (main example_env ''mongodb://u1:p1@a:27017/foo''
       ''mongodb://u2:p2@b:27017/bar'' (Some ''users'')))) =
     [''mongodump -h a:27017 -u u1 -p p1 -d foo -o /home/user/dump_foo/ -c users'',
      ''mongorestore -h b:27017 -d bar -u u2 -p p2 /home/user/dump_foo/foo/users.bson -c users'']"
  using C2_commands_with_collection [of "''mongodb://u1:p1@a:27017/foo''"
      "''mongodb://u2:p2@b:27017/bar''" example_env uri_foo uri_bar "''a''" 27017 "''b''" 27017
      "''foo''" "''/home/user/dump_foo''"
      "''mongodump -h a:27017 -u u1 -p p1 -d foo -o /home/user/dump_foo/''"
      "''mongorestore -h b:27017 -d bar -u u2 -p p2 ''"]
  by (simp add: example_env_def example_parse_uri_def uri_foo_def uri_bar_def
      startswith_def os_path_join_def str_int_27017)

subsection \<open>Running the commands\<close>

text \<open>
  C3. Every check passes: both URIs have the scheme and parse to one host each, the
  origin names a database and the dump directory does not exist. Both children exit,
  with any statuses. Then \<^verbatim>\<open>main\<close> returns, so the interpreter exits with status 0,
  and it prints the two commands, the two banners and \<^verbatim>\<open>Done!\<close>. The statuses appear
  nowhere but in the record of the two exits: what is printed is what a run prints in
  which both children exit with status 0.
\<close>

theorem C3_done_whatever_children_return:
  assumes "startswith origin ''mongodb://''" and "startswith destination ''mongodb://''"
    and "parse_uri env origin = Inr origin_p"
    and "parse_uri env destination = Inr destination_p"
    and "length (nodelist origin_p) = 1" and "length (nodelist destination_p) = 1"
    and "database origin_p = Some odb"
    and "\<not> path_exists env (os_path_join (getcwd env) (''dump_'' @ odb))"
    and "child_exit env 0 = Some dump_status"
    and "child_exit env 1 = Some restore_status"
  shows "snd (main env origin destination collection) = Returned
       \<and> exit_status (snd (main env origin destination collection)) = Some 0
       \<and> (\<exists>D R. printed (fst (main env origin destination collection)) =
             [D, R, ''** Importing from origin **'', ''** Exporting to destination **'',
              ''Done!'']
           \<and> fst (main env origin destination collection) =
             [ParseUri origin, ParseUri destination,
              PathExists (os_path_join (getcwd env) (''dump_'' @ odb)),
              Print D, Print R, Print ''** Importing from origin **'',
              Popen 0 D, Exited 0 dump_status,
              Print ''** Exporting to destination **'',
              Popen 1 R, Exited 1 restore_status, Print ''Done!''])
       \<and> printed (fst (main env origin destination collection)) =
           printed (fst (main (env\<lparr>child_exit := (\<lambda>n. Some 0)\<rparr>)
             origin destination collection))"
  using assms
  by (simp add: main_def Let_def)

theorem C3_witness:
  "child_exit example_env 0 = Some 1 \<and> child_exit example_env 1 = Some 0 \<and>
   snd (main example_env ''mongodb://u1:p1@a:27017/foo'' ''mongodb://u2:p2@b:27017/bar''
     (Some ''users'')) = Returned \<and>
   exit_status (snd (main example_env ''mongodb://u1:p1@a:27017/foo''
     ''mongodb://u2:p2@b:27017/bar'' (Some ''users''))) = Some 0"
  using C3_done_whatever_children_return [of "''mongodb://u1:p1@a:27017/foo''"
      "''mongodb://u2:p2@b:27017/bar''" example_env uri_foo uri_bar "''foo''" 1 0
      "Some ''users''"]
  by (simp add: example_env_def example_parse_uri_def uri_foo_def uri_bar_def
      startswith_def os_path_join_def)

subsection \<open>Ordering of the two processes\<close>

text \<open>
  C4. In every run, whatever the inputs and the environment, the events of the child
  processes form an initial part of: the first process starts, the first process exits,
  the second process starts, the second process exits. So the second process is never
  started before the first has exited, and no two run at once. When any process is
  started, the first runs the dump command and the second the restore command, the two
  lines printed first.
\<close>

theorem C4_restore_after_dump_exit:
  "\<exists>D R s0 s1.
     prefix (process_events (fst (main env origin destination collection)))
       [Popen 0 D, Exited 0 s0, Popen 1 R, Exited 1 s1]
     \<and> (process_events (fst (main env origin destination collection)) = []
        \<or> take 2 (printed (fst (main env origin destination collection))) = [D, R]
          \<and> take 9 D = ''mongodump'' \<and> take 12 R = ''mongorestore'')"
proof -
  let ?t = "fst (main env origin destination collection)"
  have rejected: ?thesis if "process_events ?t = []"
    using that by simp
  show ?thesis
  proof (cases "startswith origin ''mongodb://'' \<and> startswith destination ''mongodb://''")
    case False
    then show ?thesis
      by (intro rejected) (simp add: main_bad_scheme process_events_def)
  next
    case True
    then have so: "startswith origin ''mongodb://''"
      and sd: "startswith destination ''mongodb://''"
      by simp_all
    show ?thesis
    proof (cases "parse_uri env origin")
      case (Inl e)
      with so sd show ?thesis
        by (intro rejected) (simp add: main_origin_unparsed process_events_def)
    next
      case po: (Inr origin_p)
      show ?thesis
      proof (cases "parse_uri env destination")
        case (Inl e)
        with so sd po show ?thesis
          by (intro rejected) (simp add: main_destination_unparsed process_events_def)
      next
        case pd: (Inr destination_p)
        show ?thesis
        proof (cases "database origin_p")
          case None
          with so sd po pd show ?thesis
            by (intro rejected) (simp add: main_no_database process_events_def)
        next
          case db: (Some odb)
          show ?thesis
          proof (cases "path_exists env (os_path_join (getcwd env) (''dump_'' @ odb))")
            case True
            with so sd po pd db show ?thesis
              by (intro rejected) (simp add: main_collision process_events_def)
          next
            case free: False
            show ?thesis
            proof (cases "length (nodelist origin_p) = 1 \<and> length (nodelist destination_p) = 1")
              case False
              then have "length (nodelist origin_p) \<noteq> 1 \<or> length (nodelist destination_p) \<noteq> 1"
                by simp
              from main_topology [OF so sd po pd db free this, of collection]
              show ?thesis
                by (intro rejected) (simp add: process_events_def)
            next
              case True
              then have "length (nodelist origin_p) = 1" "length (nodelist destination_p) = 1"
                by simp_all
              from main_started [OF so sd po pd db free this, of collection]
              obtain X Y where m: "main env origin destination collection =
                (case child_exit env 0 of
                   None \<Rightarrow>
                     ([ParseUri origin, ParseUri destination,
                       PathExists (os_path_join (getcwd env) (''dump_'' @ odb)),
                       Print (''mongodump'' @ X), Print (''mongorestore'' @ Y),
                       Print ''** Importing from origin **'', Popen 0 (''mongodump'' @ X)],
                      Blocked)
                 | Some s0 \<Rightarrow>
                (case child_exit env 1 of
                   None \<Rightarrow>
                     ([ParseUri origin, ParseUri destination,
                       PathExists (os_path_join (getcwd env) (''dump_'' @ odb)),
                       Print (''mongodump'' @ X), Print (''mongorestore'' @ Y),
                       Print ''** Importing from origin **'', Popen 0 (''mongodump'' @ X),
                       Exited 0 s0,
                       Print ''** Exporting to destination **'',
                       Popen 1 (''mongorestore'' @ Y)],
                      Blocked)
                 | Some s1 \<Rightarrow>
                     ([ParseUri origin, ParseUri destination,
                       PathExists (os_path_join (getcwd env) (''dump_'' @ odb)),
                       Print (''mongodump'' @ X), Print (''mongorestore'' @ Y),
                       Print ''** Importing from origin **'', Popen 0 (''mongodump'' @ X),
                       Exited 0 s0,
                       Print ''** Exporting to destination **'',
                       Popen 1 (''mongorestore'' @ Y),
                       Exited 1 s1, Print ''Done!''], Returned)))"
                by blast
              have p: "take 2 (printed ?t) = [''mongodump'' @ X, ''mongorestore'' @ Y]"
                by (simp add: m split: option.splits)
              have "\<exists>s0 s1. prefix (process_events ?t)
                  [Popen 0 (''mongodump'' @ X), Exited 0 s0, Popen 1 (''mongorestore'' @ Y),
                   Exited 1 s1]"
                by (simp add: m process_events_def split: option.splits)
              then obtain s0 s1 where "prefix (process_events ?t)
                  [Popen 0 (''mongodump'' @ X), Exited 0 s0, Popen 1 (''mongorestore'' @ Y),
                   Exited 1 s1]"
                by blast
              moreover have "take 9 (''mongodump'' @ X) = ''mongodump''"
                and "take 12 (''mongorestore'' @ Y) = ''mongorestore''"
                by simp_all
              ultimately show ?thesis
                using p by blast
            qed
          qed
        qed
      qed
    qed
  qed
qed

theorem C4_witness:
  "process_events (fst (main example_env ''mongodb://u1:p1@a:27017/foo''
       ''mongodb://u2:p2@b:27017/bar'' None)) =
     [Popen 0 ''mongodump -h a:27017 -u u1 -p p1 -d foo -o /home/user/dump_foo/'',
      Exited 0 1,
      Popen 1 ''mongorestore -h b:27017 -d bar -u u2 -p p2 /home/user/dump_foo/foo'',
      Exited 1 0]
   \<and> (\<exists>D R s0 s1.
     prefix (process_events (fst (main example_env ''mongodb://u1:p1@a:27017/foo''
         ''mongodb://u2:p2@b:27017/bar'' None)))
       [Popen 0 D, Exited 0 s0, Popen 1 R, Exited 1 s1]
     \<and> (process_events (fst (main example_env ''mongodb://u1:p1@a:27017/foo''
         ''mongodb://u2:p2@b:27017/bar'' None)) = []
        \<or> take 2 (printed (fst (main example_env ''mongodb://u1:p1@a:27017/foo''
         ''mongodb://u2:p2@b:27017/bar'' None))) = [D, R]
          \<and> take 9 D = ''mongodump'' \<and> take 12 R = ''mongorestore''))"
proof (rule conjI)
  show "process_events (fst (main example_env ''mongodb://u1:p1@a:27017/foo''
       ''mongodb://u2:p2@b:27017/bar'' None)) =
     [Popen 0 ''mongodump -h a:27017 -u u1 -p p1 -d foo -o /home/user/dump_foo/'',
      Exited 0 1,
      Popen 1 ''mongorestore -h b:27017 -d bar -u u2 -p p2 /home/user/dump_foo/foo'',
      Exited 1 0]"
    by (simp add: main_def Let_def templates process_events_def example_env_def
        example_parse_uri_def uri_foo_def uri_bar_def startswith_def os_path_join_def
        str_int_27017)
  show "\<exists>D R s0 s1.
     prefix (process_events (fst (main example_env ''mongodb://u1:p1@a:27017/foo''
         ''mongodb://u2:p2@b:27017/bar'' None)))
       [Popen 0 D, Exited 0 s0, Popen 1 R, Exited 1 s1]
     \<and> (process_events (fst (main example_env ''mongodb://u1:p1@a:27017/foo''
         ''mongodb://u2:p2@b:27017/bar'' None)) = []
        \<or> take 2 (printed (fst (main example_env ''mongodb://u1:p1@a:27017/foo''
         ''mongodb://u2:p2@b:27017/bar'' None))) = [D, R]
          \<and> take 9 D = ''mongodump'' \<and> take 12 R = ''mongorestore'')"
    by (rule C4_restore_after_dump_exit)
qed

subsection \<open>Rejections\<close>

text \<open>
  C5, as the specification states it, fails: a URI with more than one host is not always
  rejected with the unsupported-topology error, and never before the dump directory is
  looked up. With the origin \<^verbatim>\<open>mongodb://u1:p1@a:27017,c:27018/foo\<close> (two hosts) and
  the directory \<^verbatim>\<open>/home/user/dump_foo\<close> present, the run looks the directory up and
  ends with the path collision error.
\<close>

theorem C5_counterexample:
  "startswith ''mongodb://u1:p1@a:27017,c:27018/foo'' ''mongodb://'' \<and>
   startswith ''mongodb://u2:p2@b:27017/bar'' ''mongodb://'' \<and>
   parse_uri collision_env ''mongodb://u1:p1@a:27017,c:27018/foo'' = Inr uri_two_hosts \<and>
   length (nodelist uri_two_hosts) = 2 \<and>
   main collision_env ''mongodb://u1:p1@a:27017,c:27018/foo'' ''mongodb://u2:p2@b:27017/bar''
       None =
     ([ParseUri ''mongodb://u1:p1@a:27017,c:27018/foo'',
       ParseUri ''mongodb://u2:p2@b:27017/bar'',
       PathExists ''/home/user/dump_foo''],
      Raised (PathCollisionError ''/home/user/dump_foo'')) \<and>
   PathCollisionError ''/home/user/dump_foo'' \<noteq> UnsupportedTopologyError"
  by (simp add: main_def Let_def collision_env_def example_parse_uri_def uri_two_hosts_def
      uri_bar_def startswith_def os_path_join_def PathCollisionError_def
      UnsupportedTopologyError_def)

text \<open>
  C5, amended. Both URIs have the scheme and parse, the origin names a database, and
  either URI has more than one host. Then the run makes the two parser calls and the
  look-up of the dump directory and nothing else: it prints nothing and starts no
  process. It ends with the path collision error when the dump directory exists, and
  with the unsupported-topology error otherwise. The host count is tested after the
  dump directory, not while parsing.
\<close>

theorem C5_more_than_one_host:
  assumes "startswith origin ''mongodb://''" and "startswith destination ''mongodb://''"
    and "parse_uri env origin = Inr origin_p"
    and "parse_uri env destination = Inr destination_p"
    and "database origin_p = Some odb"
    and "1 < length (nodelist origin_p) \<or> 1 < length (nodelist destination_p)"
  shows "main env origin destination collection =
     ([ParseUri origin, ParseUri destination,
       PathExists (os_path_join (getcwd env) (''dump_'' @ odb))],
      Raised (if path_exists env (os_path_join (getcwd env) (''dump_'' @ odb))
              then PathCollisionError (os_path_join (getcwd env) (''dump_'' @ odb))
              else UnsupportedTopologyError))"
proof (cases "path_exists env (os_path_join (getcwd env) (''dump_'' @ odb))")
  case True
  with assms show ?thesis
    by (simp add: main_collision PathCollisionError_def)
next
  case False
  from assms(6) have "length (nodelist origin_p) \<noteq> 1 \<or> length (nodelist destination_p) \<noteq> 1"
    by auto
  from main_topology [OF assms(1-5) False this] False show ?thesis
    by (simp add: UnsupportedTopologyError_def)
qed

theorem C5_witness:
  "1 < length (nodelist uri_two_hosts) \<and>
   main example_env ''mongodb://u1:p1@a:27017,c:27018/foo'' ''mongodb://u2:p2@b:27017/bar''
       None =
     ([ParseUri ''mongodb://u1:p1@a:27017,c:27018/foo'',
       ParseUri ''mongodb://u2:p2@b:27017/bar'',
       PathExists ''/home/user/dump_foo''],
      Raised UnsupportedTopologyError)"
  using C5_more_than_one_host [of "''mongodb://u1:p1@a:27017,c:27018/foo''"
      "''mongodb://u2:p2@b:27017/bar''" example_env uri_two_hosts uri_bar "''foo''" None]
  by (simp add: example_env_def example_parse_uri_def uri_two_hosts_def uri_bar_def
      startswith_def os_path_join_def)

text \<open>
  C6. Both URIs have the scheme and parse, and the origin's database is \<open>d\<close>. Then the
  one path the run looks up is \<^verbatim>\<open>os.path.join(os.getcwd(), "dump_" + d)\<close>, whatever the
  destination is; this is the working directory, a separator and \<^verbatim>\<open>dump_d\<close> whenever
  the working directory does not end with a separator. If that path exists, the run
  ends with the path collision error, having made the two parser calls and the look-up
  and nothing else: nothing is printed and no process is started.
\<close>

theorem C6_dump_path_and_collision:
  assumes "startswith origin ''mongodb://''" and "startswith destination ''mongodb://''"
    and "parse_uri env origin = Inr origin_p"
    and "parse_uri env destination = Inr destination_p"
    and "database origin_p = Some d"
  shows "checked_paths (fst (main env origin destination collection)) =
           [os_path_join (getcwd env) (''dump_'' @ d)]
       \<and> (getcwd env \<noteq> [] \<and> last (getcwd env) \<noteq> CHR ''/'' \<longrightarrow>
            os_path_join (getcwd env) (''dump_'' @ d) = getcwd env @ ''/dump_'' @ d)
       \<and> (path_exists env (os_path_join (getcwd env) (''dump_'' @ d)) \<longrightarrow>
            main env origin destination collection =
              ([ParseUri origin, ParseUri destination,
                PathExists (os_path_join (getcwd env) (''dump_'' @ d))],
               Raised (PathCollisionError (os_path_join (getcwd env) (''dump_'' @ d)))))"
proof -
  have c: "checked_paths (fst (main env origin destination collection)) =
           [os_path_join (getcwd env) (''dump_'' @ d)]"
    using assms by (simp add: main_def Let_def split: option.splits)
  have j: "getcwd env \<noteq> [] \<and> last (getcwd env) \<noteq> CHR ''/'' \<longrightarrow>
            os_path_join (getcwd env) (''dump_'' @ d) = getcwd env @ ''/dump_'' @ d"
    using os_path_join_dump [of "getcwd env" d] by simp
  have x: "path_exists env (os_path_join (getcwd env) (''dump_'' @ d)) \<longrightarrow>
            main env origin destination collection =
              ([ParseUri origin, ParseUri destination,
                PathExists (os_path_join (getcwd env) (''dump_'' @ d))],
               Raised (PathCollisionError (os_path_join (getcwd env) (''dump_'' @ d))))"
    using assms by (simp add: main_collision PathCollisionError_def)
  from c j x show ?thesis by blast
qed

theorem C6_witness:
  "path_exists collision_env ''/home/user/dump_foo'' \<and>
   main collision_env ''mongodb://u1:p1@a:27017/foo'' ''mongodb://u2:p2@b:27017/bar''
       (Some ''users'') =
     ([ParseUri ''mongodb://u1:p1@a:27017/foo'', ParseUri ''mongodb://u2:p2@b:27017/bar'',
       PathExists ''/home/user/dump_foo''],
      Raised (PathCollisionError ''/home/user/dump_foo''))"
  using C6_dump_path_and_collision [of "''mongodb://u1:p1@a:27017/foo''"
      "''mongodb://u2:p2@b:27017/bar''" collision_env uri_foo uri_bar "''foo''"
      "Some ''users''"]
  by (simp add: collision_env_def example_parse_uri_def uri_foo_def uri_bar_def
      startswith_def os_path_join_def)

text \<open>
  C7. If the origin or the destination does not start with \<^verbatim>\<open>mongodb://\<close>, the run
  ends with the invalid-input error and an empty trace: no parser call, no look-up of
  the dump directory, nothing printed, no process started.
\<close>

theorem C7_scheme_rejected_first:
  assumes "\<not> startswith origin ''mongodb://'' \<or> \<not> startswith destination ''mongodb://''"
  shows "main env origin destination collection = ([], Raised InvalidInputError)"
  using assms by (auto simp: main_bad_scheme InvalidInputError_def)

theorem C7_witness:
  "\<not> startswith ''http://a:27017/foo'' ''mongodb://'' \<and>
   main example_env ''http://a:27017/foo'' ''mongodb://u2:p2@b:27017/bar'' None =
     ([], Raised InvalidInputError) \<and>
   main collision_env ''mongodb://u1:p1@a:27017/foo'' ''http://a:27017/foo'' None =
     ([], Raised InvalidInputError)"
  using C7_scheme_rejected_first [of "''http://a:27017/foo''" "''mongodb://u2:p2@b:27017/bar''"
      example_env None]
    C7_scheme_rejected_first [of "''mongodb://u1:p1@a:27017/foo''" "''http://a:27017/foo''"
      collision_env None]
  by (simp add: startswith_def)

text \<open>
  C8, as the specification states it, fails: not every string with the scheme and a
  malformed body ends in the invalid-URI error. \<^verbatim>\<open>main\<close> catches \<^verbatim>\<open>InvalidURI\<close> and
  nothing else, and for some malformed bodies the parser raises another exception. With
  the origin \<^verbatim>\<open>mongodb://a:b:c\<close> the parser raises \<^verbatim>\<open>ValueError\<close>, which leaves
  \<^verbatim>\<open>main\<close> as it is.
\<close>

theorem C8_counterexample:
  "startswith ''mongodb://a:b:c'' ''mongodb://'' \<and>
   startswith ''mongodb://u2:p2@b:27017/bar'' ''mongodb://'' \<and>
   parse_uri example_env ''mongodb://a:b:c'' = Inl (LibraryError ''ValueError'') \<and>
   main example_env ''mongodb://a:b:c'' ''mongodb://u2:p2@b:27017/bar'' None =
     ([ParseUri ''mongodb://a:b:c''], Raised (LibraryError ''ValueError'')) \<and>
   LibraryError ''ValueError'' \<noteq> InvalidURIError"
  by (simp add: main_def except_InvalidURI_def example_env_def example_parse_uri_def
      startswith_def InvalidURIError_def)

text \<open>
  C8, amended. Both strings have the scheme, and the parser raises an exception \<open>e\<close>
  for the origin, or it parses the origin and raises \<open>e\<close> for the destination. Then the
  run ends with the invalid-URI error when \<open>e\<close> is \<^verbatim>\<open>InvalidURI\<close>, and with \<open>e\<close> itself
  otherwise. In both cases its trace holds the parser calls only: no look-up of the dump
  directory, nothing printed, no process started.
\<close>

theorem C8_parse_failure_rejected:
  assumes "startswith origin ''mongodb://''" and "startswith destination ''mongodb://''"
    and "parse_uri env origin = Inl e
       \<or> (\<exists>origin_p. parse_uri env origin = Inr origin_p)
         \<and> parse_uri env destination = Inl e"
  shows "snd (main env origin destination collection) =
           Raised (if e = InvalidURI then InvalidURIError else e)
       \<and> fst (main env origin destination collection) =
           (case parse_uri env origin of
              Inl e \<Rightarrow> [ParseUri origin]
            | Inr origin_p \<Rightarrow> [ParseUri origin, ParseUri destination])"
  using assms
  by (auto simp: main_origin_unparsed main_destination_unparsed except_InvalidURI_def
      InvalidURIError_def)

theorem C8_witness:
  "parse_uri example_env ''mongodb://'' = Inl InvalidURI \<and>
   main example_env ''mongodb://'' ''mongodb://u2:p2@b:27017/bar'' None =
     ([ParseUri ''mongodb://''], Raised InvalidURIError) \<and>
   main example_env ''mongodb://u1:p1@a:27017/foo'' ''mongodb://'' None =
     ([ParseUri ''mongodb://u1:p1@a:27017/foo'', ParseUri ''mongodb://''],
      Raised InvalidURIError) \<and>
   main example_env ''mongodb://u1:p1@a:27017/foo'' ''mongodb://a:b:c'' None =
     ([ParseUri ''mongodb://u1:p1@a:27017/foo'', ParseUri ''mongodb://a:b:c''],
      Raised (LibraryError ''ValueError''))"
  using C8_parse_failure_rejected [of "''mongodb://''" "''mongodb://u2:p2@b:27017/bar''"
      example_env InvalidURI None]
    C8_parse_failure_rejected [of "''mongodb://u1:p1@a:27017/foo''" "''mongodb://''"
      example_env InvalidURI None]
    C8_parse_failure_rejected [of "''mongodb://u1:p1@a:27017/foo''" "''mongodb://a:b:c''"
      example_env "LibraryError ''ValueError''" None]
  by (simp add: example_env_def example_parse_uri_def startswith_def prod_eq_iff)

subsection \<open>The empty collection\<close>

text \<open>
  C9. A run with the empty string as collection is the run with no collection: the same
  trace and the same end, for all inputs and environments. When every check passes, the
  two commands it prints carry no \<^verbatim>\<open> -c\<close> flag and the restore command reads from the
  origin database's directory under the dump directory.
\<close>

theorem C9_empty_collection_is_none:
  "main env origin destination (Some '''') = main env origin destination None
   \<and> (startswith origin ''mongodb://'' \<and> startswith destination ''mongodb://''
      \<and> parse_uri env origin = Inr origin_p
      \<and> parse_uri env destination = Inr destination_p
      \<and> nodelist origin_p = [(oh, op)] \<and> nodelist destination_p = [(dh, dp)]
      \<and> database origin_p = Some d
      \<and> \<not> path_exists env (os_path_join (getcwd env) (''dump_'' @ d))
      \<longrightarrow> take 2 (printed (fst (main env origin destination (Some '''')))) =
           [''mongodump -h '' @ oh @ '':'' @ str_int op @
              '' -u '' @ format_field (username origin_p) @
              '' -p '' @ format_field (password origin_p) @ '' -d '' @ d @
              '' -o '' @ os_path_join (getcwd env) (''dump_'' @ d) @ ''/'',
            ''mongorestore -h '' @ dh @ '':'' @ str_int dp @
              '' -d '' @ format_field (database destination_p) @
              '' -u '' @ format_field (username destination_p) @
              '' -p '' @ format_field (password destination_p) @
              '' '' @ os_path_join (getcwd env) (''dump_'' @ d) @ ''/'' @ d])"
proof -
  have e: "main env origin destination (Some '''') = main env origin destination None"
    by (simp add: main_def Let_def split: sum.splits option.splits)
  show ?thesis
    unfolding e
    by (simp add: main_def Let_def templates split: option.splits)
qed

theorem C9_witness:
  "main example_env ''mongodb://u1:p1@a:27017/foo'' ''mongodb://u2:p2@b:27017/bar'' (Some '''') =
   main example_env ''mongodb://u1:p1@a:27017/foo'' ''mongodb://u2:p2@b:27017/bar'' None \<and>
   take 2 (printed (fst (main example_env ''mongodb://u1:p1@a:27017/foo''
       ''mongodb://u2:p2@b:27017/bar'' (Some '''')))) =
     [''mongodump -h a:27017 -u u1 -p p1 -d foo -o /home/user/dump_foo/'',
      ''mongorestore -h b:27017 -d bar -u u2 -p p2 /home/user/dump_foo/foo'']"
  using C9_empty_collection_is_none [of example_env "''mongodb://u1:p1@a:27017/foo''"
      "''mongodb://u2:p2@b:27017/bar''" uri_foo uri_bar "''a''" 27017 "''b''" 27017 "''foo''",
      THEN conjunct1]
    C9_empty_collection_is_none [of example_env "''mongodb://u1:p1@a:27017/foo''"
      "''mongodb://u2:p2@b:27017/bar''" uri_foo uri_bar "''a''" 27017 "''b''" 27017 "''foo''",
      THEN conjunct2]
  by (simp add: example_env_def example_parse_uri_def uri_foo_def uri_bar_def
      startswith_def os_path_join_def str_int_27017)

subsection \<open>An origin without a database name\<close>

text \<open>
  C10. Both URIs have the scheme and parse, and the origin has no database name. Then
  \<^verbatim>\<open>"dump_" + origin['database']\<close> raises \<^verbatim>\<open>TypeError\<close>, which is none of the four
  error kinds; the run has made the two parser calls and nothing else, so nothing is
  printed and no process is started.
\<close>

theorem C10_missing_database_is_type_error:
  assumes "startswith origin ''mongodb://''" and "startswith destination ''mongodb://''"
    and "parse_uri env origin = Inr origin_p"
    and "parse_uri env destination = Inr destination_p"
    and "database origin_p = None"
  shows "main env origin destination collection =
           ([ParseUri origin, ParseUri destination], Raised TypeError)
       \<and> TypeError \<noteq> InvalidInputError \<and> TypeError \<noteq> InvalidURIError
       \<and> TypeError \<noteq> UnsupportedTopologyError \<and> TypeError \<noteq> PathCollisionError p"
  using assms
  by (simp add: main_no_database InvalidInputError_def InvalidURIError_def
      UnsupportedTopologyError_def PathCollisionError_def)

theorem C10_witness:
  "database uri_no_database = None \<and> length (nodelist uri_no_database) = 1 \<and>
   main example_env ''mongodb://u1:p1@a:27017'' ''mongodb://u2:p2@b:27017/bar'' None =
     ([ParseUri ''mongodb://u1:p1@a:27017'', ParseUri ''mongodb://u2:p2@b:27017/bar''],
      Raised TypeError)"
  using C10_missing_database_is_type_error [of "''mongodb://u1:p1@a:27017''"
      "''mongodb://u2:p2@b:27017/bar''" example_env uri_no_database uri_bar None]
  by (simp add: example_env_def example_parse_uri_def uri_no_database_def uri_bar_def
      startswith_def)

end
